theory Spec2Isabelle
  imports Complex_Main "HOL-Library.Log_Nat"
begin

section \<open>JavaScript values used by the reader\<close>

text \<open>
  A JavaScript number is an IEEE double. The model keeps the three special values apart
  and carries a finite double as the real number it stands for; zero has no sign. Sums
  and differences of pixel positions are taken exactly. The quotient and the product in
  the scroll percentage are rounded to the nearest double, as the code computes them
  (section ``Double arithmetic'').
\<close>

datatype jsnum = NaN | PosInfinity | NegInfinity | Finite real

text \<open>The values an attribute lookup behind \<^verbatim>\<open>?.\<close> can produce, and numbers.\<close>

datatype jsval = Undefined | Null | Str string | Num jsnum

text \<open>
  The runtime's built-ins that the source calls and that are no code of the repository:
  the conversion of a string to a number behind \<^verbatim>\<open>Number(s)\<close>, and
  \<^verbatim>\<open>String.prototype.trim\<close>. They are parameters of the model.
\<close>

record js_builtins =
  StringToNumber :: "string \<Rightarrow> jsnum"
  trim :: "string \<Rightarrow> string"

text \<open>\<^verbatim>\<open>Number(v)\<close>: undefined gives NaN, null gives 0, a string is converted.\<close>

fun Number :: "js_builtins \<Rightarrow> jsval \<Rightarrow> jsnum" where
  "Number rt Undefined = NaN"
| "Number rt Null = Finite 0"
| "Number rt (Str s) = StringToNumber rt s"
| "Number rt (Num n) = n"

text \<open>Truthiness, as the conditional operator tests it.\<close>

fun truthy :: "jsval \<Rightarrow> bool" where
  "truthy Undefined = False"
| "truthy Null = False"
| "truthy (Str s) = (s \<noteq> [])"
| "truthy (Num n) = (n \<noteq> NaN \<and> n \<noteq> Finite 0)"

text \<open>\<^verbatim>\<open>s.includes(t)\<close>: \<open>t\<close> occurs in \<open>s\<close> as a contiguous run.\<close>

fun includes_str :: "string \<Rightarrow> string \<Rightarrow> bool" where
  "includes_str [] t = (t = [])"
| "includes_str (c # cs) t = (take (length t) (c # cs) = t \<or> includes_str cs t)"

section \<open>Documents\<close>

text \<open>
  An element as far as the source reads it: its attributes, its text content and its
  inner markup. A document is what \<^verbatim>\<open>querySelector\<close> answers for a selector:
  the first matching element, or nothing.
\<close>

record element =
  attributes :: "(string \<times> string) list"
  textContent :: "string option"
  innerHTML :: string

type_synonym document = "string \<Rightarrow> element option"

definition querySelector :: "document \<Rightarrow> string \<Rightarrow> element option" where
  "querySelector doc sel = doc sel"

text \<open>\<^verbatim>\<open>e.getAttribute(name)\<close> is null when the attribute is absent.\<close>

definition getAttribute :: "element \<Rightarrow> string \<Rightarrow> jsval" where
  "getAttribute e name =
     (case map_of (attributes e) name of None \<Rightarrow> Null | Some v \<Rightarrow> Str v)"

text \<open>\<^verbatim>\<open>e?.getAttribute(name)\<close>: undefined when there is no element.\<close>

definition opt_getAttribute :: "element option \<Rightarrow> string \<Rightarrow> jsval" where
  "opt_getAttribute eo name =
     (case eo of None \<Rightarrow> Undefined | Some e \<Rightarrow> getAttribute e name)"

section \<open>Effects\<close>

datatype scroll_behavior = Instant | Smooth | Auto

datatype effect =
    HttpGet string
  | SetLocationHref string
  | ConsoleError string
  | ConsoleWarn string
  | ConsoleLog string
  | ScrollTo real scroll_behavior

text \<open>How a call ends: it returns a value, or an exception leaves it.\<close>

datatype 'a completion = Returns 'a | Throws

section \<open>The page parser and the fetcher (lib/fetch)\<close>

record ChapterData =
  id' :: jsnum
  uri :: string
  title :: string
  content :: string

definition extractChapterData ::
  "js_builtins \<Rightarrow> document \<Rightarrow> string \<Rightarrow> ChapterData \<times> effect list" where
  "extractChapterData rt doc uri0 =
     (let bookmarkButton =
            querySelector doc ''a.wp-manga-action-button[data-action=\"bookmark\"]'';
          chapterIdStr = opt_getAttribute bookmarkButton ''data-chapter'';
          chapterId =
            (if truthy chapterIdStr then Number rt chapterIdStr
             else Number rt
                    (opt_getAttribute (querySelector doc ''#wp-manga-current-chap'')
                       ''data-id''));
          title0 =
            (case querySelector doc ''#chapter-heading'' of
               None \<Rightarrow> ''Chapter Title Missing''
             | Some h \<Rightarrow>
                 (case textContent h of
                    None \<Rightarrow> ''Chapter Title Missing''
                  | Some t \<Rightarrow> trim rt t));
          content0 =
            (case querySelector doc ''.text-right'' of
               Some e \<Rightarrow> innerHTML e
             | None \<Rightarrow>
                 (case querySelector doc ''.reading-content .entry-content'' of
                    Some e \<Rightarrow> innerHTML e
                  | None \<Rightarrow>
                      (case querySelector doc ''.text-left'' of
                         Some e \<Rightarrow> innerHTML e
                       | None \<Rightarrow> ''<p>Error: Chapter content not found.</p>'')));
          w1 = (if Num chapterId = Null
                then [ConsoleWarn ''Could not extract chapter ID from bookmark button.'']
                else []);
          w2 = (if includes_str content0 ''Error: Chapter content not found.''
                then [ConsoleWarn
                        ''Could not extract chapter content from expected selectors.'']
                else [])
      in (\<lparr>id' = chapterId, uri = uri0, title = title0, content = content0\<rparr>, w1 @ w2))"

text \<open>
  What \<^verbatim>\<open>await fetch(url)\<close> followed by \<^verbatim>\<open>response.text()\<close> and the
  \<^verbatim>\<open>DOMParser\<close> gives: the request fails at the network level (the promise is
  rejected), or there is a response with a status and the document its body parses to.
\<close>

datatype http_result = NetworkFailure | Response nat document

definition ok :: "nat \<Rightarrow> bool" where
  "ok status = (200 \<le> status \<and> status \<le> 299)"

definition fetchChapter ::
  "js_builtins \<Rightarrow> (string \<Rightarrow> http_result) \<Rightarrow> string \<Rightarrow> string \<Rightarrow>
     ChapterData option completion \<times> effect list" where
  "fetchChapter rt net url title0 =
     (case net url of
        NetworkFailure \<Rightarrow> (Throws, [HttpGet url])
      | Response status doc \<Rightarrow>
          (if ok status then
             (let (data, w) = extractChapterData rt doc url
              in (Returns (Some \<lparr>id' = id' data, uri = uri data, title = title data,
                                  content = content data\<rparr>),
                  HttpGet url # w))
           else if status = 404 then
             (Returns None, [HttpGet url, ConsoleError ''Failed to fetch chapter:''])
           else if status = 403 then
             (Returns None,
              [HttpGet url, SetLocationHref url, ConsoleError ''Failed to fetch chapter:''])
           else
             (Returns None, [HttpGet url, ConsoleError ''Failed to fetch chapter:''])))"

section \<open>The reader's state\<close>

text \<open>
  An entry of the table of contents (\<^verbatim>\<open>Chapter\<close>); \<^verbatim>\<open>value\<close> is the
  chapter's URL and \<^verbatim>\<open>text\<close> its displayed title.
\<close>

record Chapter =
  chapter_id :: jsnum
  value' :: string
  text' :: string
  selected :: bool

record ReaderProps =
  availableChapters :: "Chapter list"
  novelUrl :: string
  initialChapterIndex :: int
  initialChapterData :: ChapterData

record anchor_info =
  anchor_id :: jsnum
  offset :: real

text \<open>The signals of the component.\<close>

record reader_state =
  nextChapterIndex :: int
  chapters :: "ChapterData list"
  lastChapter :: bool
  fetching :: bool
  scrollAnchorInfo :: "anchor_info option"

definition init_state :: "ReaderProps \<Rightarrow> reader_state" where
  "init_state props =
     \<lparr>nextChapterIndex = initialChapterIndex props + 1,
      chapters = [initialChapterData props],
      lastChapter = False,
      fetching = False,
      scrollAnchorInfo = None\<rparr>"

text \<open>
  What the code reads from the browser at one moment: \<^verbatim>\<open>window.scrollY\<close>, and for a
  chapter identifier the \<^verbatim>\<open>offsetTop\<close> of the element
  \<^verbatim>\<open>document.getElementById(`chapter-${id}`)\<close>, if there is one.
\<close>

record browser =
  scrollY :: real
  chapterOffsetTop :: "jsnum \<Rightarrow> real option"

section \<open>The chapter window manager (refactored reader)\<close>

definition updateChapters ::
  "browser \<Rightarrow> ChapterData \<Rightarrow> reader_state \<Rightarrow> reader_state \<times> effect list" where
  "updateChapters br newChapter s =
     (let prevChapters = chapters s in
      if length prevChapters \<ge> 3 then
        (let anchorChapter = prevChapters ! 1 in
         case chapterOffsetTop br (id' anchorChapter) of
           Some anchorTop \<Rightarrow>
             (s\<lparr>scrollAnchorInfo :=
                   Some \<lparr>anchor_id = id' anchorChapter, offset = scrollY br - anchorTop\<rparr>,
                 chapters := drop 1 prevChapters @ [newChapter]\<rparr>,
              [])
         | None \<Rightarrow>
             (s\<lparr>scrollAnchorInfo := None,
                 chapters := drop 1 prevChapters @ [newChapter]\<rparr>,
              [ConsoleWarn ''Could not find anchor element for scroll preservation.'']))
      else
        (s\<lparr>scrollAnchorInfo := None, chapters := prevChapters @ [newChapter]\<rparr>, []))"

text \<open>
  \<^verbatim>\<open>loadNextChapter\<close> is asynchronous. Up to its \<^verbatim>\<open>await\<close> it either returns
  at once or sets \<^verbatim>\<open>fetching\<close> and asks for a chapter.
\<close>

datatype start_result = Done reader_state | Await reader_state string string

definition loadNextChapter_start :: "ReaderProps \<Rightarrow> reader_state \<Rightarrow> start_result" where
  "loadNextChapter_start props s =
     (if fetching s \<or> lastChapter s then Done s
      else if nextChapterIndex s = int (length (availableChapters props)) \<or>
              nextChapterIndex s > int (length (availableChapters props)) \<or>
              nextChapterIndex s < 0
      then Done (s\<lparr>lastChapter := True\<rparr>)
      else
        (let s1 = s\<lparr>fetching := True\<rparr>;
             chapterToFetch = availableChapters props ! nat (nextChapterIndex s1)
         in Await s1 (value' chapterToFetch) (text' chapterToFetch)))"

text \<open>After the \<^verbatim>\<open>await\<close>: the rest of the try block, the catch and the finally.\<close>

definition loadNextChapter_settle ::
  "browser \<Rightarrow> ChapterData option completion \<Rightarrow> reader_state \<Rightarrow>
     reader_state \<times> effect list" where
  "loadNextChapter_settle br r s =
     (let (s2, effs) =
            (case r of
               Returns (Some newChapter) \<Rightarrow>
                 (let (s1, e1) = updateChapters br newChapter s
                  in (s1\<lparr>nextChapterIndex := nextChapterIndex s1 + 1\<rparr>, e1))
             | Returns None \<Rightarrow> (s\<lparr>lastChapter := True, scrollAnchorInfo := None\<rparr>, [])
             | Throws \<Rightarrow> (s, [ConsoleError ''Failed to fetch next chapter:'']))
      in (s2\<lparr>fetching := False\<rparr>, effs))"

text \<open>
  One call run to its end: \<open>net\<close> answers the request, \<open>br\<close> is the browser when
  the answer arrives.
\<close>

definition loadNextChapter ::
  "js_builtins \<Rightarrow> ReaderProps \<Rightarrow> browser \<Rightarrow> (string \<Rightarrow> http_result) \<Rightarrow> reader_state \<Rightarrow>
     reader_state \<times> effect list" where
  "loadNextChapter rt props br net s =
     (case loadNextChapter_start props s of
        Done s' \<Rightarrow> (s', [])
      | Await s1 url title0 \<Rightarrow>
          (let (r, e1) = fetchChapter rt net url title0;
               (s2, e2) = loadNextChapter_settle br r s1
           in (s2, e1 @ e2)))"

section \<open>Double arithmetic\<close>

text \<open>
  Division and multiplication of doubles give the exact result rounded to the nearest
  double, ties to the even significand (IEEE 754 binary64, the only rounding JavaScript
  has). \<open>round_half_even\<close> rounds a real to the nearest integer in that way.
\<close>

definition round_half_even :: "real \<Rightarrow> int" where
  "round_half_even y =
     (let f = \<lfloor>y\<rfloor>; d = y - of_int f in
      if d < 1 / 2 then f
      else if d > 1 / 2 then f + 1
      else if even f then f else f + 1)"

text \<open>
  For \<open>x > 0\<close>, \<open>ilog2 x\<close> is the integer \<open>e\<close> with \<open>2 powi e \<le> x < 2 powi (e + 1)\<close>,
  computed from the bit length of an integer. The exponent of a double is not below
  \<open>-1022\<close>: smaller numbers are subnormal and share the spacing \<open>2 powi (-1074)\<close>.
\<close>

definition ilog2 :: "real \<Rightarrow> int" where
  "ilog2 x =
     (if x \<ge> 1 then bitlen \<lfloor>x\<rfloor> - 1 else - bitlen (\<lceil>1 / x\<rceil> - 1))"

definition exponent :: "real \<Rightarrow> int" where
  "exponent x = (if x = 0 then - 1022 else max (- 1022) (ilog2 \<bar>x\<bar>))"

text \<open>
  Rounding to 53 significant bits: the doubles near \<open>x\<close> are the multiples of
  \<open>2\<close> to the power \<open>exponent x - 52\<close>. The exponent is not bounded above here;
  \<open>round_double\<close> turns a result of magnitude \<open>2 ^ 1024\<close> or more into an infinity.
\<close>

definition round_nearest :: "real \<Rightarrow> real" where
  "round_nearest x =
     (let q = 2 powi (exponent x - 52) in of_int (round_half_even (x / q)) * q)"

definition round_double :: "real \<Rightarrow> jsnum" where
  "round_double x =
     (let r = round_nearest x in
      if \<bar>r\<bar> \<ge> 2 ^ 1024 then (if 0 < x then PosInfinity else NegInfinity)
      else Finite r)"

text \<open>\<^verbatim>\<open>a / h\<close> on finite doubles.\<close>

definition double_div :: "real \<Rightarrow> real \<Rightarrow> jsnum" where
  "double_div a h =
     (if h = 0 then (if a = 0 then NaN else if 0 < a then PosInfinity else NegInfinity)
      else round_double (a / h))"

text \<open>\<^verbatim>\<open>x * c\<close> for a finite double \<open>c\<close>.\<close>

fun double_mul :: "jsnum \<Rightarrow> real \<Rightarrow> jsnum" where
  "double_mul NaN c = NaN"
| "double_mul PosInfinity c =
     (if 0 < c then PosInfinity else if c < 0 then NegInfinity else NaN)"
| "double_mul NegInfinity c =
     (if 0 < c then NegInfinity else if c < 0 then PosInfinity else NaN)"
| "double_mul (Finite x) c = round_double (x * c)"

text \<open>\<^verbatim>\<open>Math.min(c, x)\<close> for a finite double \<open>c\<close>.\<close>

fun Math_min :: "real \<Rightarrow> jsnum \<Rightarrow> jsnum" where
  "Math_min c NaN = NaN"
| "Math_min c PosInfinity = Finite c"
| "Math_min c NegInfinity = NegInfinity"
| "Math_min c (Finite x) = Finite (min c x)"

text \<open>\<^verbatim>\<open>x > c\<close> for a finite double \<open>c\<close>.\<close>

fun js_gt :: "jsnum \<Rightarrow> real \<Rightarrow> bool" where
  "js_gt NaN c = False"
| "js_gt PosInfinity c = True"
| "js_gt NegInfinity c = False"
| "js_gt (Finite x) c = (x > c)"

section \<open>The scroll trigger (refactored reader)\<close>

text \<open>
  The bounding rectangle of the current chapter's element, as far as it is read. Its
  numbers and the heights of the window are finite doubles.
\<close>

record dom_rect =
  rect_top :: real
  rect_height :: real

text \<open>
  \<^verbatim>\<open>window.innerHeight || document.documentElement.clientHeight\<close>: the second operand
  is taken when the first is 0.
\<close>

definition windowHeight :: "real \<Rightarrow> real \<Rightarrow> real" where
  "windowHeight innerHeight clientHeight =
     (if innerHeight \<noteq> 0 then innerHeight else clientHeight)"

text \<open>
  \<open>el\<close> is \<open>None\<close> when \<^verbatim>\<open>currentChapterRef\<close> is not set. The comparisons, the
  negations and \<^verbatim>\<open>Math.max\<close> are exact on doubles; the quotient and the product are
  rounded.
\<close>

definition calculateScrollPercentage :: "dom_rect option \<Rightarrow> real \<Rightarrow> real \<Rightarrow> jsnum" where
  "calculateScrollPercentage el innerHeight clientHeight =
     (case el of
        None \<Rightarrow> Finite 0
      | Some rect \<Rightarrow>
          (let wh = windowHeight innerHeight clientHeight in
           if rect_top rect \<le> - rect_height rect then Finite 100
           else if rect_top rect \<ge> wh then Finite 0
           else
             (let scrolledPastHeight = max 0 (- rect_top rect);
                  elementHeight = rect_height rect
              in if elementHeight = 0 then Finite 0
                 else Math_min 100
                        (double_mul (double_div scrolledPastHeight elementHeight) 100))))"

definition SCROLL_TRIGGER_PERCENTAGE :: real where
  "SCROLL_TRIGGER_PERCENTAGE = 60"

text \<open>The function that \<^verbatim>\<open>debounce\<close> wraps; the timing of the wrapper is not modelled.\<close>

definition handleScroll ::
  "js_builtins \<Rightarrow> ReaderProps \<Rightarrow> browser \<Rightarrow> (string \<Rightarrow> http_result) \<Rightarrow>
     dom_rect option \<Rightarrow> real \<Rightarrow> real \<Rightarrow> reader_state \<Rightarrow> reader_state \<times> effect list" where
  "handleScroll rt props br net el innerHeight clientHeight s =
     (if lastChapter s \<or> fetching s then (s, [])
      else
        (let scrollPercentage = calculateScrollPercentage el innerHeight clientHeight in
         if js_gt scrollPercentage SCROLL_TRIGGER_PERCENTAGE
         then loadNextChapter rt props br net s
         else (s, [])))"

section \<open>The scroll anchor restorer\<close>

text \<open>
  The effect on \<^verbatim>\<open>chapters\<close> reads the anchor and, when there is one, queues a
  microtask that keeps the anchor it read. \<open>restoreScrollPosition\<close> is the effect: it
  gives the anchor the queued microtask holds, if one is queued.
\<close>

definition restoreScrollPosition :: "reader_state \<Rightarrow> anchor_info option" where
  "restoreScrollPosition s =
     (case scrollAnchorInfo s of None \<Rightarrow> None | Some anchorInfo \<Rightarrow> Some anchorInfo)"

text \<open>The queued microtask, run on the browser and the state of its own moment.\<close>

definition restoreScrollPosition_microtask ::
  "browser \<Rightarrow> anchor_info \<Rightarrow> reader_state \<Rightarrow> reader_state \<times> effect list" where
  "restoreScrollPosition_microtask br anchorInfo s =
     (let effs =
            (case chapterOffsetTop br (anchor_id anchorInfo) of
               Some anchorTop \<Rightarrow> [ScrollTo (anchorTop + offset anchorInfo) Instant]
             | None \<Rightarrow> [ConsoleWarn ''Scroll anchor element not found.''])
      in (s\<lparr>scrollAnchorInfo := None\<rparr>, effs))"



section \<open>The window manager of ChapterPage.tsx\<close>

text \<open>
  The updater ChapterPage.tsx passes to \<^verbatim>\<open>setChapters\<close>, written inline there.
\<close>

definition setChapters_ChapterPage ::
  "browser \<Rightarrow> ChapterData \<Rightarrow> reader_state \<Rightarrow> reader_state \<times> effect list" where
  "setChapters_ChapterPage br newChapter s =
     (let prevChapters = chapters s in
      if length prevChapters \<ge> 3 then
        (let anchorChapter = prevChapters ! 1;
             anchorId = id' anchorChapter in
         case chapterOffsetTop br anchorId of
           Some anchorTop \<Rightarrow>
             (s\<lparr>scrollAnchorInfo :=
                   Some \<lparr>anchor_id = anchorId, offset = scrollY br - anchorTop\<rparr>,
                 chapters := drop 1 prevChapters @ [newChapter]\<rparr>,
              [ConsoleLog ''Setting scroll anchor''])
         | None \<Rightarrow>
             (s\<lparr>scrollAnchorInfo := None,
                 chapters := drop 1 prevChapters @ [newChapter]\<rparr>,
              [ConsoleWarn ''Could not find anchor element for scroll preservation.'']))
      else
        (s\<lparr>scrollAnchorInfo := None, chapters := prevChapters @ [newChapter]\<rparr>, []))"

text \<open>
  \<^verbatim>\<open>loadNextChapter\<close> of ChapterPage.tsx, run to its end. It has no check of the index
  and no try block: reading \<^verbatim>\<open>.value\<close> of an entry that does not exist throws, and
  so does a rejected fetch; both leave the function after \<^verbatim>\<open>setFetching(true)\<close>.
  The third component tells whether the call returned or threw.
\<close>

definition loadNextChapter_ChapterPage ::
  "js_builtins \<Rightarrow> ReaderProps \<Rightarrow> browser \<Rightarrow> (string \<Rightarrow> http_result) \<Rightarrow> reader_state \<Rightarrow>
     reader_state \<times> effect list \<times> unit completion" where
  "loadNextChapter_ChapterPage rt props br net s =
     (if fetching s \<or> lastChapter s then (s, [], Returns ())
      else
        (let s1 = s\<lparr>fetching := True\<rparr> in
         if nextChapterIndex s1 < 0 \<or>
            nextChapterIndex s1 \<ge> int (length (availableChapters props))
         then (s1, [], Throws)
         else
           (let chapterToFetch = availableChapters props ! nat (nextChapterIndex s1) in
            case fetchChapter rt net (value' chapterToFetch) (text' chapterToFetch) of
              (Throws, e1) \<Rightarrow> (s1, e1, Throws)
            | (Returns (Some newChapter), e1) \<Rightarrow>
                (let (s2, e2) = setChapters_ChapterPage br newChapter s1;
                     s3 = s2\<lparr>nextChapterIndex := nextChapterIndex s2 + 1\<rparr>
                 in (s3\<lparr>fetching := False\<rparr>, e1 @ e2, Returns ()))
            | (Returns None, e1) \<Rightarrow>
                (let s2 = s1\<lparr>lastChapter := True, scrollAnchorInfo := None\<rparr>
                 in (s2\<lparr>fetching := False\<rparr>, e1, Returns ())))))"

section \<open>Runs of the refactored reader\<close>

text \<open>
  What can happen to the reader, one event at a time: a call of
  \<^verbatim>\<open>loadNextChapter\<close> run to its end, a scroll event that reaches the debounced
  handler, and the restoring effect with its microtask. Each event brings the browser and
  the network of its moment.
\<close>

datatype event =
    Advance browser "string \<Rightarrow> http_result"
  | Scroll browser "string \<Rightarrow> http_result" "dom_rect option" real real
  | Restore browser

fun step :: "js_builtins \<Rightarrow> ReaderProps \<Rightarrow> reader_state \<Rightarrow> event \<Rightarrow> reader_state" where
  "step rt props s (Advance br net) = fst (loadNextChapter rt props br net s)"
| "step rt props s (Scroll br net el ih ch) = fst (handleScroll rt props br net el ih ch s)"
| "step rt props s (Restore br) =
     (case restoreScrollPosition s of
        None \<Rightarrow> s
      | Some anchorInfo \<Rightarrow> fst (restoreScrollPosition_microtask br anchorInfo s))"

definition run :: "js_builtins \<Rightarrow> ReaderProps \<Rightarrow> reader_state \<Rightarrow> event list \<Rightarrow> reader_state" where
  "run rt props s evs = foldl (step rt props) s evs"

section \<open>A reading session with five chapters\<close>

text \<open>
  A table of contents of five chapters, the pages the site serves for them, and a browser.
  The session starts on chapter 0. The conversion of strings to numbers is given on the
  identifiers the pages carry.
\<close>

definition session_rt :: js_builtins where
  "session_rt =
     \<lparr>StringToNumber =
        (\<lambda>s. case map_of [(''100'', Finite 100), (''101'', Finite 101),
                           (''102'', Finite 102), (''103'', Finite 103),
                           (''104'', Finite 104)] s of
                Some n \<Rightarrow> n | None \<Rightarrow> NaN),
      trim = (\<lambda>s. s)\<rparr>"

definition page :: "string \<Rightarrow> string \<Rightarrow> string \<Rightarrow> document" where
  "page cid heading body =
     (\<lambda>sel.
        if sel = ''a.wp-manga-action-button[data-action=\"bookmark\"]''
        then Some \<lparr>attributes = [(''data-action'', ''bookmark''), (''data-chapter'', cid)],
                   textContent = Some [], innerHTML = []\<rparr>
        else if sel = ''#chapter-heading''
        then Some \<lparr>attributes = [], textContent = Some heading, innerHTML = heading\<rparr>
        else if sel = ''.text-right''
        then Some \<lparr>attributes = [], textContent = Some body, innerHTML = body\<rparr>
        else None)"

definition entry :: "real \<Rightarrow> string \<Rightarrow> string \<Rightarrow> Chapter" where
  "entry n url t = \<lparr>chapter_id = Finite n, value' = url, text' = t, selected = False\<rparr>"

definition session_toc :: "Chapter list" where
  "session_toc =
     [entry 100 ''/ch0'' ''Chapter 0'', entry 101 ''/ch1'' ''Chapter 1'',
      entry 102 ''/ch2'' ''Chapter 2'', entry 103 ''/ch3'' ''Chapter 3'',
      entry 104 ''/ch4'' ''Chapter 4'']"

definition c0 :: ChapterData where
  "c0 = \<lparr>id' = Finite 100, uri = ''/ch0'', title = ''Chapter 0'', content = ''<p>zero</p>''\<rparr>"

definition c1 :: ChapterData where
  "c1 = \<lparr>id' = Finite 101, uri = ''/ch1'', title = ''Chapter 1'', content = ''<p>one</p>''\<rparr>"

definition c2 :: ChapterData where
  "c2 = \<lparr>id' = Finite 102, uri = ''/ch2'', title = ''Chapter 2'', content = ''<p>two</p>''\<rparr>"

definition c3 :: ChapterData where
  "c3 = \<lparr>id' = Finite 103, uri = ''/ch3'', title = ''Chapter 3'', content = ''<p>three</p>''\<rparr>"

definition c4 :: ChapterData where
  "c4 = \<lparr>id' = Finite 104, uri = ''/ch4'', title = ''Chapter 4'', content = ''<p>four</p>''\<rparr>"

definition session_props :: ReaderProps where
  "session_props =
     \<lparr>availableChapters = session_toc, novelUrl = ''/novel'',
      initialChapterIndex = 0, initialChapterData = c0\<rparr>"

definition session_net :: "string \<Rightarrow> http_result" where
  "session_net url =
     (if url = ''/ch1'' then Response 200 (page ''101'' ''Chapter 1'' ''<p>one</p>'')
      else if url = ''/ch2'' then Response 200 (page ''102'' ''Chapter 2'' ''<p>two</p>'')
      else if url = ''/ch3'' then Response 200 (page ''103'' ''Chapter 3'' ''<p>three</p>'')
      else if url = ''/ch4'' then Response 200 (page ''104'' ''Chapter 4'' ''<p>four</p>'')
      else Response 404 (\<lambda>sel. None))"

text \<open>A network on which every request gets the given answer.\<close>

definition always :: "http_result \<Rightarrow> string \<Rightarrow> http_result" where
  "always r url = r"

text \<open>
  A browser scrolled to 1040 in which the element of chapter 101 starts at 1000 and no
  other chapter element is found.
\<close>

definition session_browser :: browser where
  "session_browser =
     \<lparr>scrollY = 1040,
      chapterOffsetTop = (\<lambda>n. if n = Finite 101 then Some 1000 else None)\<rparr>"

text \<open>The reader with a full window, about to fetch chapter 3.\<close>

definition full_window :: reader_state where
  "full_window =
     \<lparr>nextChapterIndex = 3, chapters = [c0, c1, c2], lastChapter = False,
      fetching = False, scrollAnchorInfo = None\<rparr>"

text \<open>
  Three more pages. On the first nothing is found at all. The second has the navigation
  element of the current chapter, but that element carries no \<^verbatim>\<open>data-id\<close>, and it
  has no bookmark button. The third has a bookmark button without
  \<^verbatim>\<open>data-chapter\<close> and a navigation element with \<^verbatim>\<open>data-id\<close>.
\<close>

definition blank_page :: document where
  "blank_page = (\<lambda>sel. None)"

definition page_without_ids :: document where
  "page_without_ids =
     (\<lambda>sel.
        if sel = ''#wp-manga-current-chap''
        then Some \<lparr>attributes = [(''class'', ''current'')], textContent = Some ''Chapter 3'',
                   innerHTML = ''Chapter 3''\<rparr>
        else if sel = ''.text-right''
        then Some \<lparr>attributes = [], textContent = Some ''three'', innerHTML = ''<p>three</p>''\<rparr>
        else None)"

definition page_with_nav_id :: document where
  "page_with_nav_id =
     (\<lambda>sel.
        if sel = ''a.wp-manga-action-button[data-action=\"bookmark\"]''
        then Some \<lparr>attributes = [(''data-action'', ''bookmark'')], textContent = Some [],
                   innerHTML = []\<rparr>
        else if sel = ''#wp-manga-current-chap''
        then Some \<lparr>attributes = [(''data-id'', ''104'')], textContent = Some ''Chapter 4'',
                   innerHTML = ''Chapter 4''\<rparr>
        else None)"

text \<open>The reader at the end of the table of contents: the cursor is its length.\<close>

definition at_end :: reader_state where
  "at_end =
     \<lparr>nextChapterIndex = 5, chapters = [c2, c3, c4], lastChapter = False,
      fetching = False, scrollAnchorInfo = None\<rparr>"

section \<open>Facts about the window manager\<close>

lemma updateChapters_fields:
  "chapters (fst (updateChapters br r s)) =
     (if length (chapters s) \<ge> 3 then drop 1 (chapters s) @ [r] else chapters s @ [r])"
  "nextChapterIndex (fst (updateChapters br r s)) = nextChapterIndex s"
  "lastChapter (fst (updateChapters br r s)) = lastChapter s"
  "fetching (fst (updateChapters br r s)) = fetching s"
  by (simp_all add: updateChapters_def Let_def split: option.split)

lemma setChapters_ChapterPage_state:
  "fst (setChapters_ChapterPage br r s) = fst (updateChapters br r s)"
  by (simp add: setChapters_ChapterPage_def updateChapters_def Let_def split: option.split)

lemma settle_fields:
  "chapters (fst (loadNextChapter_settle br r s)) =
     (case r of Returns (Some c) \<Rightarrow> chapters (fst (updateChapters br c s)) | _ \<Rightarrow> chapters s)"
  "nextChapterIndex (fst (loadNextChapter_settle br r s)) =
     (case r of Returns (Some c) \<Rightarrow> nextChapterIndex s + 1 | _ \<Rightarrow> nextChapterIndex s)"
  "lastChapter (fst (loadNextChapter_settle br r s)) =
     (case r of Returns None \<Rightarrow> True | _ \<Rightarrow> lastChapter s)"
  "fetching (fst (loadNextChapter_settle br r s)) = False"
  by (simp_all add: loadNextChapter_settle_def updateChapters_fields split_beta Let_def
      split: completion.split option.split)

lemma loadNextChapter_blocked:
  "fetching s \<or> lastChapter s \<Longrightarrow> loadNextChapter rt props br net s = (s, [])"
  by (auto simp add: loadNextChapter_def loadNextChapter_start_def)

lemma loadNextChapter_out_of_range:
  "\<not> fetching s \<Longrightarrow> \<not> lastChapter s \<Longrightarrow>
   \<not> (0 \<le> nextChapterIndex s \<and> nextChapterIndex s < int (length (availableChapters props))) \<Longrightarrow>
   loadNextChapter rt props br net s = (s\<lparr>lastChapter := True\<rparr>, [])"
  by (auto simp add: loadNextChapter_def loadNextChapter_start_def)

lemma loadNextChapter_fetches:
  "\<not> fetching s \<Longrightarrow> \<not> lastChapter s \<Longrightarrow>
   0 \<le> nextChapterIndex s \<Longrightarrow> nextChapterIndex s < int (length (availableChapters props)) \<Longrightarrow>
   loadNextChapter rt props br net s =
     (let c = availableChapters props ! nat (nextChapterIndex s);
          f = fetchChapter rt net (value' c) (text' c);
          t = loadNextChapter_settle br (fst f) (s\<lparr>fetching := True\<rparr>)
      in (fst t, snd f @ snd t))"
  by (simp add: loadNextChapter_def loadNextChapter_start_def Let_def split_beta)

text \<open>
  While a call waits for its fetch, \<open>fetching\<close> is set, and a further call or scroll
  event returns at once and changes nothing: calls do not overlap, which is why a run
  takes each call to its end.
\<close>

lemma no_overlapping_fetch:
  assumes "loadNextChapter_start props s = Await s1 url t"
  shows "fetching s1 \<and> loadNextChapter_start props s1 = Done s1 \<and>
         loadNextChapter rt props br net s1 = (s1, []) \<and>
         handleScroll rt props br net el ih ch s1 = (s1, [])"
proof -
  have "s1 = s\<lparr>fetching := True\<rparr>"
    using assms by (simp add: loadNextChapter_start_def Let_def split: if_splits)
  then show ?thesis
    by (simp add: loadNextChapter_start_def loadNextChapter_def handleScroll_def)
qed

lemma fetch_ch3:
  "fetchChapter session_rt session_net ''/ch3'' ''Chapter 3'' =
     (Returns (Some c3), [HttpGet ''/ch3''])"
  by (simp add: fetchChapter_def session_net_def ok_def extractChapterData_def page_def
      querySelector_def opt_getAttribute_def getAttribute_def session_rt_def c3_def)




section \<open>Eviction\<close>

text \<open>
  C1. Eviction correctness. For every window of length at least 3 and every chapter record
  \<open>r\<close> that the fetch of the next locator returns, the advance operation replaces the
  window by the previous window without its first element, followed by \<open>r\<close>. This holds
  for \<open>updateChapters\<close> itself, for \<open>loadNextChapter\<close> of the refactored reader and for
  \<open>loadNextChapter\<close> of ChapterPage.tsx, when the call is not blocked by a flag and the
  cursor is inside the table of contents.
\<close>

theorem eviction_correctness:
  assumes "length (chapters s) \<ge> 3"
    and "\<not> fetching s" and "\<not> lastChapter s"
    and "0 \<le> nextChapterIndex s"
    and "nextChapterIndex s < int (length (availableChapters props))"
    and "fst (fetchChapter rt net
                (value' (availableChapters props ! nat (nextChapterIndex s)))
                (text' (availableChapters props ! nat (nextChapterIndex s)))) =
           Returns (Some r)"
  shows "chapters (fst (updateChapters br r s)) = drop 1 (chapters s) @ [r] \<and>
         chapters (fst (loadNextChapter rt props br net s)) = drop 1 (chapters s) @ [r] \<and>
         chapters (fst (loadNextChapter_ChapterPage rt props br net s)) =
           drop 1 (chapters s) @ [r]"
proof -
  let ?c = "availableChapters props ! nat (nextChapterIndex s)"
  have a: "chapters (fst (updateChapters br r s)) = drop 1 (chapters s) @ [r]"
    using assms(1) by (simp add: updateChapters_fields)
  have b: "chapters (fst (loadNextChapter rt props br net s)) = drop 1 (chapters s) @ [r]"
    using assms
    by (simp add: loadNextChapter_fetches Let_def settle_fields updateChapters_fields)
  obtain e where f: "fetchChapter rt net (value' ?c) (text' ?c) = (Returns (Some r), e)"
    using assms(6) by (cases "fetchChapter rt net (value' ?c) (text' ?c)") simp
  have "fst (loadNextChapter_ChapterPage rt props br net s) =
          (fst (updateChapters br r (s\<lparr>fetching := True\<rparr>)))
            \<lparr>nextChapterIndex := nextChapterIndex s + 1, fetching := False\<rparr>"
    using assms(2-5) f
    by (simp add: loadNextChapter_ChapterPage_def Let_def split_beta
        setChapters_ChapterPage_state updateChapters_fields)
  then have c: "chapters (fst (loadNextChapter_ChapterPage rt props br net s)) =
                  drop 1 (chapters s) @ [r]"
    using assms(1) by (simp add: updateChapters_fields)
  from a b c show ?thesis by simp
qed

theorem eviction_correctness_witness:
  "length (chapters full_window) \<ge> 3 \<and>
   \<not> fetching full_window \<and> \<not> lastChapter full_window \<and>
   chapters full_window = [c0, c1, c2] \<and>
   chapters (fst (updateChapters session_browser c3 full_window)) = [c1, c2, c3] \<and>
   chapters (fst (loadNextChapter session_rt session_props session_browser session_net
                    full_window)) = [c1, c2, c3] \<and>
   chapters (fst (loadNextChapter_ChapterPage session_rt session_props session_browser
                    session_net full_window)) = [c1, c2, c3]"
  using eviction_correctness
          [of full_window session_props session_rt session_net c3 session_browser]
  by (simp add: full_window_def session_props_def session_toc_def entry_def fetch_ch3)

section \<open>The length of the window\<close>

lemma loadNextChapter_length:
  assumes "1 \<le> length (chapters s)" "length (chapters s) \<le> 3"
  shows "1 \<le> length (chapters (fst (loadNextChapter rt props br net s))) \<and>
         length (chapters (fst (loadNextChapter rt props br net s))) \<le> 3"
proof (cases "fetching s \<or> lastChapter s")
  case True
  then show ?thesis using assms by (simp add: loadNextChapter_blocked)
next
  case False
  show ?thesis
  proof (cases "0 \<le> nextChapterIndex s \<and>
                nextChapterIndex s < int (length (availableChapters props))")
    case True
    with False assms show ?thesis
      by (simp add: loadNextChapter_fetches Let_def settle_fields updateChapters_fields
          split: completion.split option.split)
  next
    case False
    with \<open>\<not> (fetching s \<or> lastChapter s)\<close> assms show ?thesis
      by (simp add: loadNextChapter_out_of_range)
  qed
qed

lemma step_length:
  assumes "1 \<le> length (chapters s)" "length (chapters s) \<le> 3"
  shows "1 \<le> length (chapters (step rt props s ev)) \<and>
         length (chapters (step rt props s ev)) \<le> 3"
proof (cases ev)
  case (Advance br net)
  then show ?thesis using loadNextChapter_length [OF assms] by simp
next
  case (Scroll br net el ih ch)
  then show ?thesis using loadNextChapter_length [OF assms] assms
    by (simp add: handleScroll_def Let_def)
next
  case (Restore br)
  then show ?thesis using assms
    by (simp add: restoreScrollPosition_def restoreScrollPosition_microtask_def Let_def
        split: option.split)
qed

lemma run_length:
  "1 \<le> length (chapters s) \<Longrightarrow> length (chapters s) \<le> 3 \<Longrightarrow>
   1 \<le> length (chapters (run rt props s evs)) \<and> length (chapters (run rt props s evs)) \<le> 3"
  unfolding run_def
proof (induction evs arbitrary: s)
  case Nil
  then show ?case by simp
next
  case (Cons ev evs)
  from step_length [OF Cons.prems, of rt props ev] Cons.IH [of "step rt props s ev"]
  show ?case by simp
qed

text \<open>
  C2. Window length invariant. The reader starts with the one-element window that holds
  the first chapter. After any sequence of events (calls of \<open>loadNextChapter\<close> run to
  their end, whatever the network answers, scroll events and scroll restorations) the
  window holds at least one and at most three chapters.
\<close>

theorem window_length_invariant:
  "1 \<le> length (chapters (run rt props (init_state props) evs)) \<and>
   length (chapters (run rt props (init_state props) evs)) \<le> 3"
  by (rule run_length) (simp_all add: init_state_def)

section \<open>When the first eviction happens\<close>



section \<open>What the fetcher returns\<close>

text \<open>
  C5, as the code behaves. For every locator, \<open>fetchChapter\<close> sends one request and:
  on a 2xx response it returns the record the page parser extracts from the body; on 404
  it logs and returns null; on 403 it sets \<^verbatim>\<open>location.href\<close> to the locator's URL,
  logs and returns null; on any other status it logs and returns null. On a failure at
  the network level it does not return: the rejection of the request leaves
  \<open>fetchChapter\<close> as an exception, without a log of its own. That is the only way it
  throws; no HTTP status makes it throw.
\<close>

theorem fetch_outcomes:
  "(\<forall>st doc. net url = Response st doc \<and> ok st \<longrightarrow>
      fetchChapter rt net url t =
        (Returns (Some (fst (extractChapterData rt doc url))),
         HttpGet url # snd (extractChapterData rt doc url))) \<and>
   (\<forall>doc. net url = Response 404 doc \<longrightarrow>
      fetchChapter rt net url t =
        (Returns None, [HttpGet url, ConsoleError ''Failed to fetch chapter:''])) \<and>
   (\<forall>doc. net url = Response 403 doc \<longrightarrow>
      fetchChapter rt net url t =
        (Returns None,
         [HttpGet url, SetLocationHref url, ConsoleError ''Failed to fetch chapter:''])) \<and>
   (\<forall>st doc. net url = Response st doc \<and> \<not> ok st \<and> st \<noteq> 404 \<and> st \<noteq> 403 \<longrightarrow>
      fetchChapter rt net url t =
        (Returns None, [HttpGet url, ConsoleError ''Failed to fetch chapter:''])) \<and>
   (net url = NetworkFailure \<longrightarrow> fetchChapter rt net url t = (Throws, [HttpGet url])) \<and>
   (fst (fetchChapter rt net url t) = Throws \<longleftrightarrow> net url = NetworkFailure)"
  by (auto simp add: fetchChapter_def ok_def split_beta Let_def split: http_result.split)

theorem fetch_outcomes_witness:
  "fetchChapter session_rt session_net ''/ch3'' ''Chapter 3'' =
     (Returns (Some c3), [HttpGet ''/ch3'']) \<and>
   fetchChapter session_rt (always (Response 404 blank_page)) ''/ch3'' ''Chapter 3'' =
     (Returns None, [HttpGet ''/ch3'', ConsoleError ''Failed to fetch chapter:'']) \<and>
   fetchChapter session_rt (always (Response 403 blank_page)) ''/ch3'' ''Chapter 3'' =
     (Returns None,
      [HttpGet ''/ch3'', SetLocationHref ''/ch3'',
       ConsoleError ''Failed to fetch chapter:'']) \<and>
   fetchChapter session_rt (always (Response 500 blank_page)) ''/ch3'' ''Chapter 3'' =
     (Returns None, [HttpGet ''/ch3'', ConsoleError ''Failed to fetch chapter:'']) \<and>
   fetchChapter session_rt (always NetworkFailure) ''/ch3'' ''Chapter 3'' =
     (Throws, [HttpGet ''/ch3''])"
  using fetch_outcomes [of session_net "''/ch3''" session_rt "''Chapter 3''"]
    fetch_outcomes [of "always (Response 404 blank_page)" "''/ch3''" session_rt
      "''Chapter 3''"]
    fetch_outcomes [of "always (Response 403 blank_page)" "''/ch3''" session_rt
      "''Chapter 3''"]
    fetch_outcomes [of "always (Response 500 blank_page)" "''/ch3''" session_rt
      "''Chapter 3''"]
    fetch_outcomes [of "always NetworkFailure" "''/ch3''" session_rt "''Chapter 3''"]
  by (simp add: always_def ok_def session_net_def extractChapterData_def page_def
      querySelector_def opt_getAttribute_def getAttribute_def session_rt_def c3_def)

text \<open>
  C5, as it is written, has \<open>fetchChapter\<close> log and return null on a failure at the
  network level. On a network that fails, the call throws and returns nothing.
\<close>

theorem fetch_network_failure_counterexample:
  "fetchChapter session_rt (always NetworkFailure) ''/ch3'' ''Chapter 3'' =
     (Throws, [HttpGet ''/ch3'']) \<and>
   fst (fetchChapter session_rt (always NetworkFailure) ''/ch3'' ''Chapter 3'') \<noteq>
     Returns None"
  by (simp add: fetchChapter_def always_def)

section \<open>Failed fetches\<close>

text \<open>
  C4, as the code behaves. Take a call of \<open>loadNextChapter\<close> that is not blocked by a
  flag, with the cursor inside the table of contents. If the fetch throws (a failure at
  the network level, or any other exception that reaches the catch), the call leaves the
  state as it found it: the cursor is unchanged, \<open>fetching\<close> is cleared and
  \<open>lastChapter\<close> is not set, so the next call asks for the same chapter again. If the
  server answers with a status outside 2xx, whichever it is, the fetch returns null: the
  cursor is unchanged and \<open>fetching\<close> is cleared, but \<open>lastChapter\<close> is set, and every
  later call returns at once.
\<close>

theorem failure_recovery:
  assumes "\<not> fetching s" and "\<not> lastChapter s"
    and "0 \<le> nextChapterIndex s"
    and "nextChapterIndex s < int (length (availableChapters props))"
    and "c = availableChapters props ! nat (nextChapterIndex s)"
    and "s' = fst (loadNextChapter rt props br net s)"
  shows "(net (value' c) = NetworkFailure \<longrightarrow>
            s' = s \<and> nextChapterIndex s' = nextChapterIndex s \<and> \<not> fetching s' \<and>
            \<not> lastChapter s' \<and>
            loadNextChapter_start props s' =
              Await (s\<lparr>fetching := True\<rparr>) (value' c) (text' c)) \<and>
         loadNextChapter_settle br Throws (s\<lparr>fetching := True\<rparr>) =
           (s, [ConsoleError ''Failed to fetch next chapter:'']) \<and>
         (\<forall>st doc. net (value' c) = Response st doc \<and> \<not> ok st \<longrightarrow>
            s' = s\<lparr>lastChapter := True, scrollAnchorInfo := None\<rparr> \<and>
            nextChapterIndex s' = nextChapterIndex s \<and> \<not> fetching s' \<and> lastChapter s' \<and>
            (\<forall>br' net'. loadNextChapter rt props br' net' s' = (s', [])))"
proof -
  have thrown: "loadNextChapter_settle br Throws (s\<lparr>fetching := True\<rparr>) =
           (s, [ConsoleError ''Failed to fetch next chapter:''])"
    using assms(1) by (simp add: loadNextChapter_settle_def)
  have nf: "s' = s" if "net (value' c) = NetworkFailure"
    using that assms thrown
    by (simp add: loadNextChapter_fetches Let_def fetchChapter_def)
  have start: "loadNextChapter_start props s =
                 Await (s\<lparr>fetching := True\<rparr>) (value' c) (text' c)"
    using assms by (simp add: loadNextChapter_start_def Let_def)
  have bad: "s' = s\<lparr>lastChapter := True, scrollAnchorInfo := None\<rparr>"
    if "net (value' c) = Response st doc" "\<not> ok st" for st doc
    using that assms
    by (simp add: loadNextChapter_fetches Let_def fetchChapter_def loadNextChapter_settle_def)
  show ?thesis
    using nf start thrown bad assms(1,2) by (auto simp add: loadNextChapter_blocked)
qed

theorem failure_recovery_witness:
  "\<not> fetching full_window \<and> \<not> lastChapter full_window \<and>
   fst (loadNextChapter session_rt session_props session_browser (always NetworkFailure)
          full_window) = full_window \<and>
   loadNextChapter_start session_props full_window =
     Await (full_window\<lparr>fetching := True\<rparr>) ''/ch3'' ''Chapter 3'' \<and>
   fst (loadNextChapter session_rt session_props session_browser
          (always (Response 500 blank_page)) full_window) =
     full_window\<lparr>lastChapter := True, scrollAnchorInfo := None\<rparr> \<and>
   loadNextChapter session_rt session_props session_browser session_net
     (full_window\<lparr>lastChapter := True, scrollAnchorInfo := None\<rparr>) =
     (full_window\<lparr>lastChapter := True, scrollAnchorInfo := None\<rparr>, [])"
proof -
  have pre: "\<not> fetching full_window" "\<not> lastChapter full_window"
    "0 \<le> nextChapterIndex full_window"
    "nextChapterIndex full_window < int (length (availableChapters session_props))"
    and c: "availableChapters session_props ! nat (nextChapterIndex full_window) =
         entry 103 ''/ch3'' ''Chapter 3''"
    by (simp_all add: full_window_def session_props_def session_toc_def)
  note a = failure_recovery [where rt = session_rt and br = session_browser
      and net = "always NetworkFailure", OF pre c [symmetric] refl]
  note b = failure_recovery [where rt = session_rt and br = session_browser
      and net = "always (Response 500 blank_page)", OF pre c [symmetric] refl]
  from a have a1: "fst (loadNextChapter session_rt session_props session_browser
      (always NetworkFailure) full_window) = full_window"
    by (simp add: always_def)
  from a a1 have a2: "loadNextChapter_start session_props full_window =
     Await (full_window\<lparr>fetching := True\<rparr>) ''/ch3'' ''Chapter 3''"
    by (simp add: always_def entry_def)
  let ?bad = "always (Response 500 blank_page)"
  let ?s' = "fst (loadNextChapter session_rt session_props session_browser ?bad full_window)"
  let ?x = "full_window\<lparr>lastChapter := True, scrollAnchorInfo := None\<rparr>"
  have "?bad (value' (entry 103 ''/ch3'' ''Chapter 3'')) = Response 500 blank_page \<and>
        \<not> ok 500"
    by (simp add: always_def ok_def)
  with b have b1: "?s' = ?x"
    and b2: "\<forall>br' net'. loadNextChapter session_rt session_props br' net' ?s' = (?s', [])"
    by blast+
  from b2 b1 have b3:
    "loadNextChapter session_rt session_props session_browser session_net ?x = (?x, [])"
    by simp
  from pre a1 a2 b1 b3 show ?thesis by simp
qed

text \<open>
  C4, as it is written, lets a later call fetch again after any failure that is not a 404
  or a 403. After one answer with status 500 the reader is exhausted: the next call
  changes nothing, although the network would now serve chapter 3.
\<close>

theorem failure_recovery_counterexample:
  "lastChapter (run session_rt session_props full_window
                  [Advance session_browser (always (Response 500 blank_page))]) \<and>
   run session_rt session_props full_window
     [Advance session_browser (always (Response 500 blank_page)),
      Advance session_browser session_net] =
     full_window\<lparr>lastChapter := True\<rparr> \<and>
   chapters (run session_rt session_props full_window [Advance session_browser session_net]) =
     [c1, c2, c3]"
  by (simp add: run_def full_window_def session_props_def session_toc_def entry_def
      loadNextChapter_def loadNextChapter_start_def loadNextChapter_settle_def
      updateChapters_def fetchChapter_def session_net_def ok_def extractChapterData_def
      page_def querySelector_def opt_getAttribute_def getAttribute_def session_rt_def
      session_browser_def c0_def c1_def c2_def c3_def always_def Let_def)

section \<open>Facts about double arithmetic\<close>


lemma rhe_of_int [simp]: "round_half_even (of_int k) = k"
  by (simp add: round_half_even_def)



lemma ilog2_bounds:
  assumes "0 < x"
  shows "2 powi (ilog2 x) \<le> x \<and> x < 2 powi (ilog2 x + 1)"
proof (cases "x \<ge> 1")
  case True
  let ?n = "nat \<lfloor>x\<rfloor>"
  let ?k = "floorlog 2 ?n"
  have n: "0 < ?n" using True by simp
  from floorlog_bounds [OF n, of 2] have b: "2 ^ (?k - 1) \<le> ?n" "?n < 2 ^ ?k" by simp_all
  have k: "0 < ?k" using n by (simp add: floorlog_eq_zero_iff zero_less_iff_neq_zero)
  have e: "ilog2 x = int ?k - 1" using True by (simp add: ilog2_def bitlen_def)
  have "real ?n \<le> x" using True by simp
  moreover have "(2::real) ^ (?k - 1) \<le> real ?n"
    using b(1) by (metis of_nat_le_iff of_nat_numeral of_nat_power)
  ultimately have lo: "(2::real) ^ (?k - 1) \<le> x" by linarith
  have "Suc ?n \<le> 2 ^ ?k" using b(2) by (rule Suc_leI)
  then have "real (?n + 1) \<le> 2 ^ ?k"
    by (metis Suc_eq_plus1 of_nat_le_iff of_nat_numeral of_nat_power)
  moreover have "x < real (?n + 1)" using True by simp linarith
  ultimately have hi: "x < 2 ^ ?k" by linarith
  have "int ?k - 1 = int (?k - 1)" using k by simp
  then have "(2::real) powi (ilog2 x) = 2 ^ (?k - 1)"
    unfolding e by (metis power_int_of_nat)
  moreover have "(2::real) powi (ilog2 x + 1) = 2 ^ ?k"
    unfolding e by simp
  ultimately show ?thesis using lo hi by simp
next
  case False
  with assms have x1: "x < 1" by simp
  let ?m = "nat (\<lceil>1 / x\<rceil> - 1)"
  let ?k = "floorlog 2 ?m"
  have inv: "1 < 1 / x" using assms x1 by simp
  then have c: "2 \<le> \<lceil>1 / x\<rceil>" by linarith
  then have m: "0 < ?m" by linarith
  from floorlog_bounds [OF m, of 2] have b: "2 ^ (?k - 1) \<le> ?m" "?m < 2 ^ ?k" by simp_all
  have k: "0 < ?k" using m by (simp add: floorlog_eq_zero_iff zero_less_iff_neq_zero)
  have e: "ilog2 x = - int ?k" using False by (simp add: ilog2_def bitlen_def)
  have "0 \<le> \<lceil>1 / x\<rceil> - 1" using c by linarith
  then have "real ?m = of_int (\<lceil>1 / x\<rceil> - 1)" by (rule of_nat_nat)
  then have mm: "real ?m = of_int \<lceil>1 / x\<rceil> - 1" by simp
  have "real ?m < 1 / x" unfolding mm by linarith
  moreover have "(2::real) ^ (?k - 1) \<le> real ?m"
    using b(1) by (metis of_nat_le_iff of_nat_numeral of_nat_power)
  ultimately have lo: "(2::real) ^ (?k - 1) < 1 / x" by linarith
  have "Suc ?m \<le> 2 ^ ?k" using b(2) by (rule Suc_leI)
  then have "real (?m + 1) \<le> 2 ^ ?k"
    by (metis Suc_eq_plus1 of_nat_le_iff of_nat_numeral of_nat_power)
  moreover have "1 / x \<le> real (?m + 1)" using mm by simp
  ultimately have hi: "1 / x \<le> 2 ^ ?k" by linarith
  have p1: "(2::real) powi (ilog2 x) = 1 / 2 ^ ?k"
    unfolding e by (simp add: power_int_minus_divide)
  have "- int ?k + 1 = - int (?k - 1)" using k by simp
  then have p2: "(2::real) powi (ilog2 x + 1) = 1 / 2 ^ (?k - 1)"
    unfolding e by (metis power_int_minus_divide power_int_of_nat)
  have "1 / 2 ^ ?k \<le> x"
    using hi assms by (simp add: field_simps)
  moreover have "x < 1 / 2 ^ (?k - 1)"
    using lo assms by (simp add: field_simps)
  ultimately show ?thesis using p1 p2 by simp
qed

lemma exponent_ge: "- 1022 \<le> exponent x"
  by (simp add: exponent_def)

lemma exponent_upper: "\<bar>x\<bar> < 2 powi (exponent x + 1)"
proof (cases "x = 0")
  case True
  then show ?thesis by simp
next
  case False
  then have "\<bar>x\<bar> < 2 powi (ilog2 \<bar>x\<bar> + 1)"
    using ilog2_bounds [of "\<bar>x\<bar>"] by simp
  also have "\<dots> \<le> 2 powi (exponent x + 1)"
    using False by (intro power_int_increasing) (simp_all add: exponent_def)
  finally show ?thesis .
qed

lemma exponent_lower: "- 1022 < exponent x \<Longrightarrow> 2 powi (exponent x) \<le> \<bar>x\<bar>"
  using ilog2_bounds [of "\<bar>x\<bar>"]
  by (cases "x = 0") (auto simp add: exponent_def max_def split: if_splits)

lemma exponent_eqI:
  assumes "- 1022 \<le> e" "2 powi e \<le> \<bar>x\<bar>" "\<bar>x\<bar> < 2 powi (e + 1)"
  shows "exponent x = e"
proof (rule ccontr)
  assume ne: "exponent x \<noteq> e"
  show False
  proof (cases "exponent x < e")
    case True
    then have "2 powi (exponent x + 1) \<le> (2::real) powi e"
      by (intro power_int_increasing) simp_all
    with exponent_upper [of x] assms(2) show False by linarith
  next
    case False
    with ne have gt: "e < exponent x" by simp
    with assms(1) have "2 powi (exponent x) \<le> \<bar>x\<bar>"
      by (intro exponent_lower) simp
    moreover from gt have "2 powi (e + 1) \<le> (2::real) powi (exponent x)"
      by (intro power_int_increasing) simp_all
    ultimately show False using assms(3) by linarith
  qed
qed

lemma exponent_subnormal: "\<bar>x\<bar> < 2 powi (- 1022) \<Longrightarrow> exponent x = - 1022"
  using exponent_lower [of x] exponent_ge [of x]
    power_int_increasing [of "- 1022" "exponent x" "2::real"]
  by (cases "exponent x = - 1022") auto


lemma round_nearest_zero [simp]: "round_nearest 0 = 0"
  by (simp add: round_nearest_def round_half_even_def)








lemma round_nearest_eqI:
  assumes "- 1022 \<le> e" "2 powi e \<le> \<bar>x\<bar>" "\<bar>x\<bar> < 2 powi (e + 1)"
    and "of_int (round_half_even (x / 2 powi (e - 52))) * 2 powi (e - 52) = r"
  shows "round_nearest x = r"
  using exponent_eqI [OF assms(1-3)] assms(4) by (simp add: round_nearest_def)











lemma round_nearest_hundred_thirds: "round_nearest (100 / 3) = 4691249611844267 / 2 ^ 47"
  by (rule round_nearest_eqI [where e = 5]) (simp_all add: round_half_even_def)

section \<open>The scroll percentage\<close>






section \<open>Exhaustion\<close>

lemma run_exhausted:
  "lastChapter s \<Longrightarrow>
   lastChapter (run rt props s evs) \<and> chapters (run rt props s evs) = chapters s \<and>
   nextChapterIndex (run rt props s evs) = nextChapterIndex s \<and>
   fetching (run rt props s evs) = fetching s"
  unfolding run_def
proof (induction evs arbitrary: s)
  case Nil
  then show ?case by simp
next
  case (Cons ev evs)
  have st: "lastChapter (step rt props s ev) \<and> chapters (step rt props s ev) = chapters s \<and>
    nextChapterIndex (step rt props s ev) = nextChapterIndex s \<and>
    fetching (step rt props s ev) = fetching s"
    using Cons.prems
    by (cases ev)
       (simp_all add: loadNextChapter_blocked handleScroll_def restoreScrollPosition_def
          restoreScrollPosition_microtask_def split: option.split)
  with Cons.IH [of "step rt props s ev"] show ?case by simp
qed

text \<open>
  C7. Exhaustion is sticky. Once \<open>lastChapter\<close> is set, a call of \<open>loadNextChapter\<close>
  returns before it sets \<open>fetching\<close>, leaves the whole state (window, cursor,
  \<open>fetching\<close>, scroll anchor) as it is and performs no effect, so no fetch; the scroll
  handler does the same. No sequence of events clears the flag or changes the window, the
  cursor or \<open>fetching\<close>, and after any such sequence a call is still without effect.
\<close>

theorem exhaustion_sticky:
  assumes "lastChapter s"
  shows "loadNextChapter_start props s = Done s \<and>
         loadNextChapter rt props br net s = (s, []) \<and>
         handleScroll rt props br net el ih ch s = (s, []) \<and>
         lastChapter (run rt props s evs) \<and>
         chapters (run rt props s evs) = chapters s \<and>
         nextChapterIndex (run rt props s evs) = nextChapterIndex s \<and>
         fetching (run rt props s evs) = fetching s \<and>
         loadNextChapter rt props br net (run rt props s evs) = (run rt props s evs, [])"
  using assms run_exhausted [OF assms, of rt props evs]
  by (simp add: loadNextChapter_blocked handleScroll_def loadNextChapter_start_def)

theorem exhaustion_sticky_witness:
  "lastChapter (full_window\<lparr>lastChapter := True\<rparr>) \<and>
   loadNextChapter session_rt session_props session_browser session_net
     (full_window\<lparr>lastChapter := True\<rparr>) = (full_window\<lparr>lastChapter := True\<rparr>, []) \<and>
   handleScroll session_rt session_props session_browser session_net
     (Some \<lparr>rect_top = - 900, rect_height = 1000\<rparr>) 800 800
     (full_window\<lparr>lastChapter := True\<rparr>) = (full_window\<lparr>lastChapter := True\<rparr>, []) \<and>
   lastChapter (run session_rt session_props (full_window\<lparr>lastChapter := True\<rparr>)
      [Advance session_browser session_net, Restore session_browser,
       Scroll session_browser session_net
         (Some \<lparr>rect_top = - 900, rect_height = 1000\<rparr>) 800 800]) \<and>
   chapters (run session_rt session_props (full_window\<lparr>lastChapter := True\<rparr>)
      [Advance session_browser session_net, Restore session_browser,
       Scroll session_browser session_net
         (Some \<lparr>rect_top = - 900, rect_height = 1000\<rparr>) 800 800]) = [c0, c1, c2]"
  using exhaustion_sticky [of "full_window\<lparr>lastChapter := True\<rparr>" session_props
     session_rt session_browser session_net
     "Some \<lparr>rect_top = - 900, rect_height = 1000\<rparr>" 800 800
     "[Advance session_browser session_net, Restore session_browser,
       Scroll session_browser session_net
         (Some \<lparr>rect_top = - 900, rect_height = 1000\<rparr>) 800 800]"]
  by (simp add: full_window_def)

section \<open>Restoring the scroll position\<close>



section \<open>The chapter identifier\<close>

lemma chapterId_unfold:
  "id' (fst (extractChapterData rt doc u)) =
     (if truthy (opt_getAttribute (doc ''a.wp-manga-action-button[data-action=\"bookmark\"]'')
                   ''data-chapter'')
      then Number rt (opt_getAttribute
                        (doc ''a.wp-manga-action-button[data-action=\"bookmark\"]'')
                        ''data-chapter'')
      else Number rt (opt_getAttribute (doc ''#wp-manga-current-chap'') ''data-id''))"
  by (simp add: extractChapterData_def querySelector_def Let_def)

text \<open>
  C9, as the code behaves. The identifier the page parser extracts is a number, never
  null, so the warning behind \<^verbatim>\<open>chapterId === null\<close> is never given, and the record
  is returned with the locator that was fetched. The number is the conversion of the
  bookmark button's \<^verbatim>\<open>data-chapter\<close> when that attribute is a non-empty string. Without
  such a string it is NaN when the document has no current-chapter element, it is 0 (not
  NaN) when that element is there and carries no \<^verbatim>\<open>data-id\<close>, and it is the
  conversion of \<^verbatim>\<open>data-id\<close> otherwise.
\<close>

theorem chapter_id_never_null:
  "Num (id' (fst (extractChapterData rt doc u))) \<noteq> Null \<and>
   ConsoleWarn ''Could not extract chapter ID from bookmark button.'' \<notin>
     set (snd (extractChapterData rt doc u)) \<and>
   uri (fst (extractChapterData rt doc u)) = u \<and>
   (\<forall>b v. doc ''a.wp-manga-action-button[data-action=\"bookmark\"]'' = Some b \<and>
          map_of (attributes b) ''data-chapter'' = Some v \<and> v \<noteq> [] \<longrightarrow>
      id' (fst (extractChapterData rt doc u)) = StringToNumber rt v) \<and>
   (\<not> truthy (opt_getAttribute (doc ''a.wp-manga-action-button[data-action=\"bookmark\"]'')
                ''data-chapter'') \<longrightarrow>
      (doc ''#wp-manga-current-chap'' = None \<longrightarrow>
         id' (fst (extractChapterData rt doc u)) = NaN) \<and>
      (\<forall>e. doc ''#wp-manga-current-chap'' = Some e \<and>
           map_of (attributes e) ''data-id'' = None \<longrightarrow>
         id' (fst (extractChapterData rt doc u)) = Finite 0) \<and>
      (\<forall>e v. doc ''#wp-manga-current-chap'' = Some e \<and>
           map_of (attributes e) ''data-id'' = Some v \<longrightarrow>
         id' (fst (extractChapterData rt doc u)) = StringToNumber rt v))"
proof -
  have w: "ConsoleWarn ''Could not extract chapter ID from bookmark button.'' \<notin>
     set (snd (extractChapterData rt doc u))"
    by (simp add: extractChapterData_def Let_def)
  have u: "uri (fst (extractChapterData rt doc u)) = u"
    by (simp add: extractChapterData_def Let_def)
  show ?thesis
    using w u
    by (auto simp add: chapterId_unfold opt_getAttribute_def getAttribute_def)
qed

theorem chapter_id_never_null_witness:
  "id' (fst (extractChapterData session_rt (page ''103'' ''Chapter 3'' ''<p>three</p>'') ''/ch3'')) =
     Finite 103 \<and>
   id' (fst (extractChapterData session_rt blank_page ''/ch3'')) = NaN \<and>
   id' (fst (extractChapterData session_rt page_without_ids ''/ch3'')) = Finite 0 \<and>
   id' (fst (extractChapterData session_rt page_with_nav_id ''/ch3'')) = Finite 104"
  using chapter_id_never_null [of session_rt "page ''103'' ''Chapter 3'' ''<p>three</p>''" "''/ch3''"]
    chapter_id_never_null [of session_rt blank_page "''/ch3''"]
    chapter_id_never_null [of session_rt page_without_ids "''/ch3''"]
    chapter_id_never_null [of session_rt page_with_nav_id "''/ch3''"]
  by (simp add: page_def blank_page_def page_without_ids_def page_with_nav_id_def
      opt_getAttribute_def getAttribute_def session_rt_def)

text \<open>
  C9, as it is written, gives NaN whenever both attributes are absent. On a page without a
  bookmark button whose current-chapter element has no \<^verbatim>\<open>data-id\<close>, both lookups
  find no attribute, and the identifier is 0.
\<close>

theorem chapter_id_absent_counterexample:
  "opt_getAttribute
     (querySelector page_without_ids ''a.wp-manga-action-button[data-action=\"bookmark\"]'')
     ''data-chapter'' = Undefined \<and>
   opt_getAttribute (querySelector page_without_ids ''#wp-manga-current-chap'') ''data-id'' =
     Null \<and>
   id' (fst (extractChapterData session_rt page_without_ids ''/ch3'')) = Finite 0 \<and>
   id' (fst (extractChapterData session_rt page_without_ids ''/ch3'')) \<noteq> NaN"
  by (simp add: extractChapterData_def page_without_ids_def querySelector_def
      opt_getAttribute_def getAttribute_def Let_def)

section \<open>The two readers\<close>

lemma loadNextChapter_versions_agree:
  assumes "0 \<le> nextChapterIndex s" "nextChapterIndex s < int (length (availableChapters props))"
    and "net (value' (availableChapters props ! nat (nextChapterIndex s))) \<noteq> NetworkFailure"
  shows "fst (loadNextChapter_ChapterPage rt props br net s) =
         fst (loadNextChapter rt props br net s)"
proof (cases "fetching s \<or> lastChapter s")
  case True
  then show ?thesis
    by (auto simp add: loadNextChapter_blocked loadNextChapter_ChapterPage_def)
next
  case False
  let ?c = "availableChapters props ! nat (nextChapterIndex s)"
  obtain r e where f: "fetchChapter rt net (value' ?c) (text' ?c) = (r, e)"
    by (cases "fetchChapter rt net (value' ?c) (text' ?c)")
  have "r \<noteq> Throws"
    using f assms(3)
    by (auto simp add: fetchChapter_def split_beta Let_def split: http_result.splits if_splits)
  then show ?thesis
    using False assms(1,2) f
    by (cases r)
       (auto simp add: loadNextChapter_fetches loadNextChapter_ChapterPage_def Let_def
          loadNextChapter_settle_def setChapters_ChapterPage_state split_beta
          split: option.split)
qed

text \<open>
  C10. The two \<open>loadNextChapter\<close> are compared where the claim says they agree. With
  the cursor at the end of the table of contents the refactored reader sets
  \<open>lastChapter\<close> and returns, while ChapterPage.tsx sets \<open>fetching\<close>, throws, and
  leaves \<open>fetching\<close> set and \<open>lastChapter\<close> unset. When the fetch throws, the refactored
  reader clears \<open>fetching\<close>, while ChapterPage.tsx leaves it set.
\<close>

theorem load_versions_differ:
  "loadNextChapter session_rt session_props session_browser session_net at_end =
     (at_end\<lparr>lastChapter := True\<rparr>, []) \<and>
   loadNextChapter_ChapterPage session_rt session_props session_browser session_net at_end =
     (at_end\<lparr>fetching := True\<rparr>, [], Throws) \<and>
   loadNextChapter session_rt session_props session_browser (always NetworkFailure)
       full_window =
     (full_window, [HttpGet ''/ch3'', ConsoleError ''Failed to fetch next chapter:'']) \<and>
   loadNextChapter_ChapterPage session_rt session_props session_browser
       (always NetworkFailure) full_window =
     (full_window\<lparr>fetching := True\<rparr>, [HttpGet ''/ch3''], Throws)"
  by (simp add: loadNextChapter_def loadNextChapter_start_def loadNextChapter_settle_def
      loadNextChapter_ChapterPage_def fetchChapter_def always_def at_end_def full_window_def
      session_props_def session_toc_def entry_def Let_def)

end
